theory Spec2Isabelle
  imports Complex_Main
begin

section \<open>Column values\<close>

text \<open>
  The adapters hand over \<^verbatim>\<open>unknown[][]\<close>: every column is an arbitrary JavaScript
  value. A Number is an IEEE double. Every finite double is a rational number, so a
  finite Number is modelled by its mathematical value; negative zero, NaN and the two
  infinities are the remaining doubles. (Not every rational is a double: what is proved
  for all \<open>Finite q\<close> holds in particular for the doubles.)
\<close>

datatype number = Finite rat | NegZero | NaN | PosInfinity | NegInfinity

text \<open>
  Objects, symbols and functions are known by their reference only: two of them are the
  same value exactly when they are the same reference. \<open>JUint8Array\<close> is an object for
  which \<^verbatim>\<open>instanceof Uint8Array\<close> holds, \<open>JObject\<close> any other non-callable object.
\<close>

type_synonym ref = nat

datatype js_value =
    JUndefined
  | JNull
  | JBoolean bool
  | JNumber number
  | JBigInt int
  | JString string
  | JSymbol ref
  | JUint8Array ref
  | JObject ref
  | JFunction ref

text \<open>The \<^verbatim>\<open>typeof\<close> operator.\<close>

fun typeof :: "js_value \<Rightarrow> string" where
  "typeof JUndefined = ''undefined''"
| "typeof JNull = ''object''"
| "typeof (JBoolean b) = ''boolean''"
| "typeof (JNumber n) = ''number''"
| "typeof (JBigInt k) = ''bigint''"
| "typeof (JString s) = ''string''"
| "typeof (JSymbol a) = ''symbol''"
| "typeof (JUint8Array a) = ''object''"
| "typeof (JObject a) = ''object''"
| "typeof (JFunction a) = ''function''"

text \<open>\<^verbatim>\<open>value instanceof Uint8Array\<close>.\<close>

fun instanceof_Uint8Array :: "js_value \<Rightarrow> bool" where
  "instanceof_Uint8Array (JUint8Array a) = True"
| "instanceof_Uint8Array v = False"

text \<open>
  \<^verbatim>\<open>Number.isInteger(value)\<close>: false for a value that is not a Number, false for NaN and
  the infinities, and true for a finite Number whose mathematical value is an integer.
\<close>

fun Number_isInteger :: "js_value \<Rightarrow> bool" where
  "Number_isInteger (JNumber (Finite q)) = (rat_of_int \<lfloor>q\<rfloor> = q)"
| "Number_isInteger (JNumber NegZero) = True"
| "Number_isInteger v = False"

text \<open>
  What is thrown: an \<^verbatim>\<open>Error\<close> or a \<^verbatim>\<open>RangeError\<close> created with the given message, or
  whatever value an adapter threw (or rejected its promise with).
\<close>

datatype exn = Error string | RangeError string | Thrown js_value

text \<open>
  \<^verbatim>\<open>BigInt(value)\<close> for a Number argument, the only kind the accessors pass to it: the
  mathematical value of an integral Number, a RangeError for any other Number.
\<close>

fun BigInt :: "number \<Rightarrow> exn + js_value" where
  "BigInt (Finite q) =
     (if rat_of_int \<lfloor>q\<rfloor> = q then Inr (JBigInt \<lfloor>q\<rfloor>)
      else Inl (RangeError ''The number cannot be converted to a BigInt because it is not an integer''))"
| "BigInt NegZero = Inr (JBigInt 0)"
| "BigInt n = Inl (RangeError ''The number cannot be converted to a BigInt because it is not an integer'')"

text \<open>
  The strict equality operator \<^verbatim>\<open>===\<close>: values of different types are never equal, NaN
  is equal to nothing (not even to itself), the two zeros are equal to each other, and
  everything else is compared by value (primitives) or by reference (objects).
\<close>

fun number_equal :: "number \<Rightarrow> number \<Rightarrow> bool" where
  "number_equal NaN y = False"
| "number_equal x NaN = False"
| "number_equal NegZero y = (y = NegZero \<or> y = Finite 0)"
| "number_equal x NegZero = (x = Finite 0)"
| "number_equal x y = (x = y)"

fun strict_equals :: "js_value \<Rightarrow> js_value \<Rightarrow> bool" where
  "strict_equals (JNumber x) (JNumber y) = number_equal x y"
| "strict_equals v w = (v = w)"

section \<open>Row\<close>

text \<open>
  \<^verbatim>\<open>class Row { private result: unknown[]; constructor(result) { this.result = result } }\<close>
\<close>

datatype Row = Row (Row_result: "js_value list")

text \<open>
  The element an array holds under a Number used as property key, \<^verbatim>\<open>result[index]\<close>: the
  key of a non-negative integral Number (and of negative zero, whose key is \<^verbatim>\<open>"0"\<close>) is
  an array index; every other Number names a property that an array does not have.
\<close>

fun array_index :: "number \<Rightarrow> nat option" where
  "array_index (Finite q) = (if 0 \<le> q \<and> rat_of_int \<lfloor>q\<rfloor> = q then Some (nat \<lfloor>q\<rfloor>) else None)"
| "array_index NegZero = Some 0"
| "array_index n = None"

text \<open>
  \<^verbatim>\<open>get(index) { const value = this.result[index]; return value; }\<close>
  Reading an array where it has no element gives \<^verbatim>\<open>undefined\<close>.
\<close>

definition Row_get :: "Row \<Rightarrow> number \<Rightarrow> js_value" where
  "Row_get r index =
     (case array_index index of
        None \<Rightarrow> JUndefined
      | Some k \<Rightarrow> if k < length (Row_result r) then Row_result r ! k else JUndefined)"

definition Row_stringNullable :: "Row \<Rightarrow> number \<Rightarrow> exn + js_value" where
  "Row_stringNullable r index =
     (let value = Row_get r index in
      if typeof value \<noteq> ''string'' \<and> value \<noteq> JNull then Inl (Error ''Not a string or null'')
      else Inr value)"

definition Row_string :: "Row \<Rightarrow> number \<Rightarrow> exn + js_value" where
  "Row_string r index =
     (let value = Row_get r index in
      if typeof value \<noteq> ''string'' then Inl (Error ''Not a string'')
      else Inr value)"

definition Row_numberNullable :: "Row \<Rightarrow> number \<Rightarrow> exn + js_value" where
  "Row_numberNullable r index =
     (let value = Row_get r index in
      if typeof value \<noteq> ''number'' \<and> value \<noteq> JNull then Inl (Error ''Not a number or null'')
      else Inr value)"

definition Row_number :: "Row \<Rightarrow> number \<Rightarrow> exn + js_value" where
  "Row_number r index =
     (let value = Row_get r index in
      if typeof value \<noteq> ''number'' then Inl (Error ''Not a number'')
      else Inr value)"

text \<open>
  In the two wide-integer accessors the test \<^verbatim>\<open>typeof value === "number"\<close> narrows the
  value to a Number, which is what \<open>BigInt\<close> then receives.
\<close>

definition Row_bigintNullable :: "Row \<Rightarrow> number \<Rightarrow> exn + js_value" where
  "Row_bigintNullable r index =
     (let value = Row_get r index;
          otherwise =
            (if typeof value \<noteq> ''bigint'' \<and> value \<noteq> JNull then Inl (Error ''Not an integer or null'')
             else Inr value)
      in case value of
           JNumber n \<Rightarrow> if Number_isInteger value then BigInt n else otherwise
         | _ \<Rightarrow> otherwise)"

definition Row_bigint :: "Row \<Rightarrow> number \<Rightarrow> exn + js_value" where
  "Row_bigint r index =
     (let value = Row_get r index;
          otherwise =
            (if typeof value \<noteq> ''bigint'' then Inl (Error ''Not an integer'')
             else Inr value)
      in case value of
           JNumber n \<Rightarrow> if Number_isInteger value then BigInt n else otherwise
         | _ \<Rightarrow> otherwise)"

definition Row_booleanNullable :: "Row \<Rightarrow> number \<Rightarrow> exn + js_value" where
  "Row_booleanNullable r index =
     (let value = Row_get r index in
      if typeof value \<noteq> ''boolean'' \<and> value \<noteq> JNull then Inl (Error ''Not a boolean or null'')
      else Inr value)"

definition Row_boolean :: "Row \<Rightarrow> number \<Rightarrow> exn + js_value" where
  "Row_boolean r index =
     (let value = Row_get r index in
      if typeof value \<noteq> ''boolean'' then Inl (Error ''Not a boolean'')
      else Inr value)"

definition Row_bytesNullable :: "Row \<Rightarrow> number \<Rightarrow> exn + js_value" where
  "Row_bytesNullable r index =
     (let value = Row_get r index in
      if \<not> instanceof_Uint8Array value \<and> value \<noteq> JNull then Inl (Error ''Not an Uint8Array or null'')
      else Inr value)"

definition Row_bytes :: "Row \<Rightarrow> number \<Rightarrow> exn + js_value" where
  "Row_bytes r index =
     (let value = Row_get r index in
      if \<not> instanceof_Uint8Array value then Inl (Error ''Not an Uint8Array'')
      else Inr value)"

section \<open>Rows\<close>

text \<open>
  \<^verbatim>\<open>class Rows { private result: unknown[][]; constructor(result) { this.result = result } }\<close>
\<close>

datatype Rows = Rows (Rows_result: "js_value list list")

text \<open>\<^verbatim>\<open>count() { return this.result.length; }\<close>\<close>

definition Rows_count :: "Rows \<Rightarrow> nat" where
  "Rows_count rows = length (Rows_result rows)"

text \<open>
  \<^verbatim>\<open>*[Symbol.iterator]() { for (const item of this.result) { yield new Row(item); } }\<close>
  Calling the generator function creates a generator object suspended at the start of
  the body. Its state is the array being walked by \<^verbatim>\<open>for...of\<close> and the position of the
  next element; the array's length is read again at every step.
\<close>

datatype RowsIterator = RowsIterator (iterated: "js_value list list") (nextIndex: nat)

definition Rows_iterator :: "Rows \<Rightarrow> RowsIterator" where
  "Rows_iterator rows = RowsIterator (Rows_result rows) 0"

text \<open>
  One call of \<^verbatim>\<open>next()\<close>: the Row yielded (\<open>None\<close> when the generator is done) and the
  generator's state afterwards.
\<close>

fun iterator_next :: "RowsIterator \<Rightarrow> Row option \<times> RowsIterator" where
  "iterator_next (RowsIterator result i) =
     (if i < length result then (Some (Row (result ! i)), RowsIterator result (i + 1))
      else (None, RowsIterator result i))"

text \<open>
  A consumer's \<^verbatim>\<open>for (const row of rows)\<close> loop, collecting the rows it is given: it calls
  \<^verbatim>\<open>next()\<close> until the generator is done.
\<close>

function for_of :: "RowsIterator \<Rightarrow> Row list" where
  "for_of it =
     (case iterator_next it of
        (None, it') \<Rightarrow> []
      | (Some row, it') \<Rightarrow> row # for_of it')"
  by pat_completeness auto
termination
proof (relation "measure (\<lambda>it. length (iterated it) - nextIndex it)")
  show "wf (measure (\<lambda>it. length (iterated it) - nextIndex it))"
    by simp
next
  fix it :: RowsIterator and x it' row
  assume "(x, it') = iterator_next it" and "x = Some row"
  then show "(it', it) \<in> measure (\<lambda>it. length (iterated it) - nextIndex it)"
    by (cases it) (auto split: if_splits)
qed

text \<open>The equation of the loop is used one step at a time.\<close>

declare for_of.simps [simp del]

section \<open>The synchronous facade\<close>

text \<open>
  The adapter is supplied by the caller and talks to a database. Its two operations are
  modelled as transformers of the state \<open>'db\<close> of that database (and of the adapter):
  a call returns a value or throws, and leaves a new state behind.
\<close>

record ('db, 'e) SyncAdapter =
  query :: "string \<Rightarrow> js_value list \<Rightarrow> 'db \<Rightarrow> (exn + js_value list list) \<times> 'db"
  execute :: "string \<Rightarrow> js_value list \<Rightarrow> 'db \<Rightarrow> (exn + 'e) \<times> 'db"

datatype ('db, 'e) SyncDatabase = SyncDatabase (SyncDatabase_adapter: "('db, 'e) SyncAdapter")

text \<open>A \<open>Row | null\<close> is a \<open>Row option\<close>, \<open>None\<close> being \<^verbatim>\<open>null\<close>.\<close>

definition SyncDatabase_queryOne ::
  "('db, 'e) SyncDatabase \<Rightarrow> string \<Rightarrow> js_value list \<Rightarrow> 'db \<Rightarrow> (exn + Row option) \<times> 'db" where
  "SyncDatabase_queryOne this statement params db =
     (case SyncAdapter.query (SyncDatabase_adapter this) statement params db of
        (Inl e, db') \<Rightarrow> (Inl e, db')
      | (Inr result, db') \<Rightarrow>
          if length result < 1 then (Inr None, db')
          else (Inr (Some (Row (result ! 0))), db'))"

definition SyncDatabase_queryOneOrThrow ::
  "('db, 'e) SyncDatabase \<Rightarrow> string \<Rightarrow> js_value list \<Rightarrow> 'db \<Rightarrow> (exn + Row) \<times> 'db" where
  "SyncDatabase_queryOneOrThrow this statement params db =
     (case SyncDatabase_queryOne this statement params db of
        (Inl e, db') \<Rightarrow> (Inl e, db')
      | (Inr row, db') \<Rightarrow>
          if row = None then (Inl (Error ''Query did not return any rows''), db')
          else (Inr (the row), db'))"

definition SyncDatabase_query ::
  "('db, 'e) SyncDatabase \<Rightarrow> string \<Rightarrow> js_value list \<Rightarrow> 'db \<Rightarrow> (exn + Rows) \<times> 'db" where
  "SyncDatabase_query this statement params db =
     (case SyncAdapter.query (SyncDatabase_adapter this) statement params db of
        (Inl e, db') \<Rightarrow> (Inl e, db')
      | (Inr result, db') \<Rightarrow> (Inr (Rows result), db'))"

definition SyncDatabase_execute ::
  "('db, 'e) SyncDatabase \<Rightarrow> string \<Rightarrow> js_value list \<Rightarrow> 'db \<Rightarrow> (exn + 'e) \<times> 'db" where
  "SyncDatabase_execute this statement params db =
     SyncAdapter.execute (SyncDatabase_adapter this) statement params db"

section \<open>The asynchronous facade\<close>

text \<open>
  A promise is modelled by how it ends: fulfilled with a value, rejected with a reason,
  or never settled. A call of an asynchronous adapter operation may also throw before it
  returns a promise; otherwise the state left behind is the one at the time the promise
  settles, where \<^verbatim>\<open>await\<close> resumes the caller.
\<close>

datatype 'a promise = Fulfilled 'a | Rejected exn | Pending

record ('db, 'e) AsyncAdapter =
  query :: "string \<Rightarrow> js_value list \<Rightarrow> 'db \<Rightarrow> (exn + js_value list list promise) \<times> 'db"
  execute :: "string \<Rightarrow> js_value list \<Rightarrow> 'db \<Rightarrow> (exn + 'e promise) \<times> 'db"

datatype ('db, 'e) AsyncDatabase = AsyncDatabase (AsyncDatabase_adapter: "('db, 'e) AsyncAdapter")

text \<open>
  \<^verbatim>\<open>await e\<close> inside an \<^verbatim>\<open>async\<close> method: an exception thrown while evaluating \<open>e\<close> and a
  rejection of the awaited promise both leave the method by its \<^verbatim>\<open>throw\<close> path, which
  rejects the promise the method returned; a promise that never settles leaves the
  method suspended for ever. An \<^verbatim>\<open>async\<close> method itself never throws: every outcome is
  a state of the promise it returns.
\<close>

fun await :: "exn + 'a promise \<Rightarrow> 'a promise" where
  "await (Inl e) = Rejected e"
| "await (Inr p) = p"

definition AsyncDatabase_queryOne ::
  "('db, 'e) AsyncDatabase \<Rightarrow> string \<Rightarrow> js_value list \<Rightarrow> 'db \<Rightarrow> Row option promise \<times> 'db" where
  "AsyncDatabase_queryOne this statement params db =
     (case AsyncAdapter.query (AsyncDatabase_adapter this) statement params db of (called, db') \<Rightarrow>
        (case await called of
           Rejected e \<Rightarrow> (Rejected e, db')
         | Pending \<Rightarrow> (Pending, db')
         | Fulfilled result \<Rightarrow>
             if length result < 1 then (Fulfilled None, db')
             else (Fulfilled (Some (Row (result ! 0))), db')))"

definition AsyncDatabase_queryOneOrThrow ::
  "('db, 'e) AsyncDatabase \<Rightarrow> string \<Rightarrow> js_value list \<Rightarrow> 'db \<Rightarrow> Row promise \<times> 'db" where
  "AsyncDatabase_queryOneOrThrow this statement params db =
     (case AsyncDatabase_queryOne this statement params db of (called, db') \<Rightarrow>
        (case await (Inr called) of
           Rejected e \<Rightarrow> (Rejected e, db')
         | Pending \<Rightarrow> (Pending, db')
         | Fulfilled row \<Rightarrow>
             if row = None then (Rejected (Error ''Query did not return any rows''), db')
             else (Fulfilled (the row), db')))"

definition AsyncDatabase_query ::
  "('db, 'e) AsyncDatabase \<Rightarrow> string \<Rightarrow> js_value list \<Rightarrow> 'db \<Rightarrow> Rows promise \<times> 'db" where
  "AsyncDatabase_query this statement params db =
     (case AsyncAdapter.query (AsyncDatabase_adapter this) statement params db of (called, db') \<Rightarrow>
        (case await called of
           Rejected e \<Rightarrow> (Rejected e, db')
         | Pending \<Rightarrow> (Pending, db')
         | Fulfilled result \<Rightarrow> (Fulfilled (Rows result), db')))"

definition AsyncDatabase_execute ::
  "('db, 'e) AsyncDatabase \<Rightarrow> string \<Rightarrow> js_value list \<Rightarrow> 'db \<Rightarrow> 'e promise \<times> 'db" where
  "AsyncDatabase_execute this statement params db =
     (case AsyncAdapter.execute (AsyncDatabase_adapter this) statement params db of (called, db') \<Rightarrow>
        (case await called of
           Rejected e \<Rightarrow> (Rejected e, db')
         | Pending \<Rightarrow> (Pending, db')
         | Fulfilled v \<Rightarrow> (Fulfilled v, db')))"

section \<open>Notions the properties are stated with\<close>

text \<open>
  The mathematical value of a Number: negative zero has the value 0, NaN and the
  infinities have none. A Number is integral when its value is \<open>rat_of_int k\<close> for an
  integer \<open>k\<close>.
\<close>

fun mathematical_value :: "number \<Rightarrow> rat option" where
  "mathematical_value (Finite q) = Some q"
| "mathematical_value NegZero = Some 0"
| "mathematical_value n = None"

text \<open>
  An index lies in \<open>[0, length)\<close> when it is a Number whose value is at least 0 and less
  than the number of columns of the row.
\<close>

definition in_range :: "Row \<Rightarrow> number \<Rightarrow> bool" where
  "in_range r index =
     (case index of
        Finite q \<Rightarrow> 0 \<le> q \<and> q < rat_of_nat (length (Row_result r))
      | NegZero \<Rightarrow> 0 < length (Row_result r)
      | _ \<Rightarrow> False)"

text \<open>
  How an immediate outcome reads when it arrives through a promise: a returned value as
  a fulfilment, a thrown exception as a rejection.
\<close>

fun deferred :: "exn + 'a \<Rightarrow> 'a promise" where
  "deferred (Inl e) = Rejected e"
| "deferred (Inr v) = Fulfilled v"

text \<open>
  A row used to try the properties on: \<^verbatim>\<open>[42, 4.2, 7n, null, "x"]\<close>.
\<close>

definition example_row :: Row where
  "example_row = Row [JNumber (Finite 42), JNumber (Finite (21 / 5)), JBigInt 7, JNull, JString ''x'']"

text \<open>
  Two adapters used to try the properties on, over a database whose state counts the
  statements that ran: the statement \<^verbatim>\<open>none\<close> selects no row, \<^verbatim>\<open>bad\<close> is refused by the
  driver, every other one selects the rows \<^verbatim>\<open>[7, "x"]\<close> and \<^verbatim>\<open>[8, "y"]\<close>.
\<close>

definition example_tuples :: "js_value list list" where
  "example_tuples = [[JNumber (Finite 7), JString ''x''], [JNumber (Finite 8), JString ''y'']]"

definition example_sync :: "(nat, nat) SyncDatabase" where
  "example_sync = SyncDatabase
     \<lparr>SyncAdapter.query = (\<lambda>statement params db.
        if statement = ''none'' then (Inr [], db + 1)
        else if statement = ''bad'' then (Inl (Thrown (JString ''syntax error'')), db)
        else (Inr example_tuples, db + 1)),
      SyncAdapter.execute = (\<lambda>statement params db. (Inr (length params), db + 1))\<rparr>"

definition example_async :: "(nat, nat) AsyncDatabase" where
  "example_async = AsyncDatabase
     \<lparr>AsyncAdapter.query = (\<lambda>statement params db.
        if statement = ''none'' then (Inr (Fulfilled []), db + 1)
        else if statement = ''bad'' then (Inr (Rejected (Thrown (JString ''syntax error''))), db)
        else (Inr (Fulfilled example_tuples), db + 1)),
      AsyncAdapter.execute = (\<lambda>statement params db. (Inr (Fulfilled (length params)), db + 1))\<rparr>"

text \<open>
  Two adapters that have lost their connection: every call throws, the asynchronous one
  before it returns a promise.
\<close>

definition failing_sync :: "(nat, nat) SyncDatabase" where
  "failing_sync = SyncDatabase
     \<lparr>SyncAdapter.query = (\<lambda>statement params db. (Inl (Thrown (JString ''connection lost'')), db)),
      SyncAdapter.execute = (\<lambda>statement params db. (Inl (Thrown (JString ''connection lost'')), db))\<rparr>"

definition failing_async :: "(nat, nat) AsyncDatabase" where
  "failing_async = AsyncDatabase
     \<lparr>AsyncAdapter.query = (\<lambda>statement params db. (Inl (Thrown (JString ''connection lost'')), db)),
      AsyncAdapter.execute = (\<lambda>statement params db. (Inl (Thrown (JString ''connection lost'')), db))\<rparr>"

section \<open>Basic facts\<close>

lemma integral_iff_floor: "(\<exists>k. q = rat_of_int k) \<longleftrightarrow> rat_of_int \<lfloor>q\<rfloor> = q"
  by (metis of_int_floor_cancel Ints_of_int)

lemma Number_isInteger_iff:
  "Number_isInteger (JNumber n) \<longleftrightarrow> (\<exists>k. mathematical_value n = Some (rat_of_int k))"
proof (cases n)
  case (Finite q)
  then show ?thesis using integral_iff_floor [of q] by auto
next
  case NegZero
  have "(0::rat) = rat_of_int 0" by simp
  with NegZero show ?thesis
    by (metis Number_isInteger.simps(2) mathematical_value.simps(2))
qed simp_all

lemma BigInt_integral:
  "mathematical_value n = Some (rat_of_int k) \<Longrightarrow> BigInt n = Inr (JBigInt k)"
  by (cases n) auto

lemmas accessor_defs =
  Row_stringNullable_def Row_string_def Row_numberNullable_def Row_number_def
  Row_bigintNullable_def Row_bigint_def Row_booleanNullable_def Row_boolean_def
  Row_bytesNullable_def Row_bytes_def

text \<open>An index that is not in range reads \<^verbatim>\<open>undefined\<close>.\<close>

lemma Row_get_outside: "\<not> in_range r index \<Longrightarrow> Row_get r index = JUndefined"
proof (cases index)
  case (Finite q)
  assume out: "\<not> in_range r index"
  show ?thesis
  proof (cases "0 \<le> q \<and> rat_of_int \<lfloor>q\<rfloor> = q")
    case True
    with out Finite have "rat_of_nat (length (Row_result r)) \<le> q"
      by (simp add: in_range_def)
    then have "int (length (Row_result r)) \<le> \<lfloor>q\<rfloor>"
      by (simp add: le_floor_iff)
    then have "length (Row_result r) \<le> nat \<lfloor>q\<rfloor>" by linarith
    with True Finite show ?thesis by (simp add: Row_get_def)
  next
    case False
    with Finite show ?thesis by (auto simp add: Row_get_def)
  qed
qed (auto simp add: Row_get_def in_range_def)

text \<open>The integer index \<open>k\<close> of a position of the tuple reads that position.\<close>

lemma Row_get_position:
  "k < length tuple \<Longrightarrow> Row_get (Row tuple) (Finite (rat_of_nat k)) = tuple ! k"
  by (simp add: Row_get_def)

text \<open>Every typed accessor rejects \<^verbatim>\<open>undefined\<close>.\<close>

lemma undefined_accessors:
  assumes "Row_get r index = JUndefined"
  shows "Row_stringNullable r index = Inl (Error ''Not a string or null'')"
    and "Row_numberNullable r index = Inl (Error ''Not a number or null'')"
    and "Row_bigintNullable r index = Inl (Error ''Not an integer or null'')"
    and "Row_booleanNullable r index = Inl (Error ''Not a boolean or null'')"
    and "Row_bytesNullable r index = Inl (Error ''Not an Uint8Array or null'')"
    and "Row_string r index = Inl (Error ''Not a string'')"
    and "Row_number r index = Inl (Error ''Not a number'')"
    and "Row_bigint r index = Inl (Error ''Not an integer'')"
    and "Row_boolean r index = Inl (Error ''Not a boolean'')"
    and "Row_bytes r index = Inl (Error ''Not an Uint8Array'')"
  using assms by (simp_all add: accessor_defs)

text \<open>What \<open>BigInt\<close> returns: the wide integer with the mathematical value of its argument.\<close>

lemma BigInt_result:
  "BigInt m = Inr v \<longleftrightarrow> (\<exists>k. v = JBigInt k \<and> mathematical_value m = Some (rat_of_int k))"
proof (cases m)
  case (Finite q)
  show ?thesis
  proof (cases "rat_of_int \<lfloor>q\<rfloor> = q")
    case True
    then have "mathematical_value m = Some (rat_of_int k) \<longleftrightarrow> k = \<lfloor>q\<rfloor>" for k
      using Finite by (metis mathematical_value.simps(1) of_int_eq_iff option.inject)
    with True Finite show ?thesis by auto
  next
    case False
    then have "mathematical_value m \<noteq> Some (rat_of_int k)" for k
      using Finite by auto
    with False Finite show ?thesis by simp
  qed
next
  case NegZero
  have "(0::rat) = rat_of_int k \<longleftrightarrow> k = 0" for k by auto
  with NegZero show ?thesis by auto
qed simp_all

text \<open>The Number 4.2 is not integral.\<close>

lemma not_integral_21_5: "mathematical_value (Finite (21 / 5)) \<noteq> Some (rat_of_int k)"
proof
  assume "mathematical_value (Finite (21 / 5)) = Some (rat_of_int k)"
  then have "rat_of_int (5 * k) = rat_of_int 21" by simp
  then have "5 * k = 21" by (simp only: of_int_eq_iff)
  then show False by presburger
qed

lemma example_row_get:
  "Row_get example_row (Finite 0) = JNumber (Finite 42)"
  "Row_get example_row (Finite 1) = JNumber (Finite (21 / 5))"
  "Row_get example_row (Finite 2) = JBigInt 7"
  "Row_get example_row (Finite 3) = JNull"
  "Row_get example_row (Finite 4) = JString ''x''"
  by (simp_all add: example_row_def Row_get_def)

text \<open>The loop started at position \<open>i\<close> collects the rows from \<open>i\<close> on.\<close>

lemma for_of_from: "for_of (RowsIterator result i) = map Row (drop i result)"
proof (induction "length result - i" arbitrary: i)
  case 0
  then show ?case by (subst for_of.simps) simp
next
  case (Suc n)
  then have less: "i < length result" and "n = length result - (i + 1)"
    by simp_all
  with Suc.hyps(1) have "for_of (RowsIterator result (i + 1)) = map Row (drop (i + 1) result)"
    by blast
  moreover from less
  have "for_of (RowsIterator result i) = Row (result ! i) # for_of (RowsIterator result (i + 1))"
    by (subst for_of.simps) simp
  moreover from less have "drop i result = result ! i # drop (i + 1) result"
    by (simp add: Cons_nth_drop_Suc)
  ultimately show ?case
    by simp
qed

text \<open>Strict equality holds between a value and itself, unless the value is NaN.\<close>

lemma strict_equals_refl: "v \<noteq> JNumber NaN \<Longrightarrow> strict_equals v v"
proof (cases v)
  case (JNumber n)
  assume "v \<noteq> JNumber NaN"
  with JNumber show ?thesis by (cases n) simp_all
qed simp_all

section \<open>Out-of-range access\<close>

text \<open>
  C1, as the specification states it: an index outside \<open>[0, length)\<close> behaves like a
  stored null, so that every nullable accessor returns null there. The code does
  otherwise. In the row \<^verbatim>\<open>[null]\<close>, index 1 is out of range; \<^verbatim>\<open>stringNullable(0)\<close> returns
  the stored null, but \<^verbatim>\<open>stringNullable(1)\<close> reads \<^verbatim>\<open>undefined\<close>, which is neither a string nor
  \<^verbatim>\<open>null\<close> under \<^verbatim>\<open>!==\<close>, and throws.
\<close>

theorem out_of_range_nullable_counterexample:
  "\<not> in_range (Row [JNull]) (Finite 1)
   \<and> Row_stringNullable (Row [JNull]) (Finite 0) = Inr JNull
   \<and> Row_stringNullable (Row [JNull]) (Finite 1) = Inl (Error ''Not a string or null'')
   \<and> Row_stringNullable (Row [JNull]) (Finite 1) \<noteq> Inr JNull"
  by (simp add: in_range_def Row_stringNullable_def Row_get_def)

text \<open>
  C1, amended: for every Row and every index outside \<open>[0, length)\<close>, \<^verbatim>\<open>get(index)\<close> yields
  \<^verbatim>\<open>undefined\<close>, which is not \<^verbatim>\<open>null\<close>, and every typed accessor, the five nullable ones
  as well as the five non-nullable ones, fails with the type-mismatch Error of that
  accessor. Out-of-range access is no error kind of its own, but it is not the null case
  either: no nullable accessor returns null for it.
\<close>

theorem out_of_range_access:
  assumes "\<not> in_range r index"
  shows "Row_get r index = JUndefined
       \<and> Row_stringNullable r index = Inl (Error ''Not a string or null'')
       \<and> Row_numberNullable r index = Inl (Error ''Not a number or null'')
       \<and> Row_bigintNullable r index = Inl (Error ''Not an integer or null'')
       \<and> Row_booleanNullable r index = Inl (Error ''Not a boolean or null'')
       \<and> Row_bytesNullable r index = Inl (Error ''Not an Uint8Array or null'')
       \<and> Row_string r index = Inl (Error ''Not a string'')
       \<and> Row_number r index = Inl (Error ''Not a number'')
       \<and> Row_bigint r index = Inl (Error ''Not an integer'')
       \<and> Row_boolean r index = Inl (Error ''Not a boolean'')
       \<and> Row_bytes r index = Inl (Error ''Not an Uint8Array'')"
proof -
  have "Row_get r index = JUndefined"
    using assms by (rule Row_get_outside)
  then show ?thesis
    by (simp add: undefined_accessors)
qed

theorem out_of_range_access_witness:
  "\<not> in_range (Row [JNull]) (Finite 1)
   \<and> Row_get (Row [JNull]) (Finite 1) = JUndefined
   \<and> Row_bytesNullable (Row [JNull]) (Finite 1) = Inl (Error ''Not an Uint8Array or null'')
   \<and> Row_string (Row [JNull]) (Finite 1) = Inl (Error ''Not a string'')"
proof -
  have out: "\<not> in_range (Row [JNull]) (Finite 1)"
    by (simp add: in_range_def)
  from out_of_range_access [OF out] out show ?thesis by simp
qed

section \<open>The wide-integer accessors\<close>

text \<open>
  C2: for every Row and index, with \<open>value\<close> the value at the index:
  if it is a Number with an integral mathematical value \<open>k\<close>, \<^verbatim>\<open>bigint\<close> returns the wide
  integer \<open>k\<close> (no loss: the result has the value of the Number); if it is a wide integer
  already, \<^verbatim>\<open>bigint\<close> returns it unchanged; a Number without an integral value (a fraction,
  NaN, an infinity) and a value of any other kind (null and \<^verbatim>\<open>undefined\<close> among them) make
  \<^verbatim>\<open>bigint\<close> fail with its type-mismatch Error. \<^verbatim>\<open>bigintNullable\<close> does the same, except that
  it returns null for null.
\<close>

theorem bigint_widening:
  fixes r :: Row and index :: number
  shows "(\<forall>n k. Row_get r index = JNumber n \<and> mathematical_value n = Some (rat_of_int k) \<longrightarrow>
            Row_bigint r index = Inr (JBigInt k) \<and> Row_bigintNullable r index = Inr (JBigInt k))
       \<and> (\<forall>k. Row_get r index = JBigInt k \<longrightarrow>
            Row_bigint r index = Inr (JBigInt k) \<and> Row_bigintNullable r index = Inr (JBigInt k))
       \<and> (\<forall>n. Row_get r index = JNumber n \<and> (\<forall>k. mathematical_value n \<noteq> Some (rat_of_int k)) \<longrightarrow>
            Row_bigint r index = Inl (Error ''Not an integer'')
            \<and> Row_bigintNullable r index = Inl (Error ''Not an integer or null''))
       \<and> (typeof (Row_get r index) \<noteq> ''number'' \<and> typeof (Row_get r index) \<noteq> ''bigint'' \<longrightarrow>
            Row_bigint r index = Inl (Error ''Not an integer''))
       \<and> (typeof (Row_get r index) \<noteq> ''number'' \<and> typeof (Row_get r index) \<noteq> ''bigint''
            \<and> Row_get r index \<noteq> JNull \<longrightarrow>
            Row_bigintNullable r index = Inl (Error ''Not an integer or null''))
       \<and> (Row_get r index = JNull \<longrightarrow> Row_bigintNullable r index = Inr JNull)"
proof -
  have integral: "Row_bigint r index = Inr (JBigInt k) \<and> Row_bigintNullable r index = Inr (JBigInt k)"
    if "Row_get r index = JNumber n" and "mathematical_value n = Some (rat_of_int k)" for n k
  proof -
    from that(2) have "Number_isInteger (JNumber n)"
      unfolding Number_isInteger_iff by blast
    with that show ?thesis
      by (simp add: Row_bigint_def Row_bigintNullable_def BigInt_integral)
  qed
  have wide: "Row_bigint r index = Inr (JBigInt k) \<and> Row_bigintNullable r index = Inr (JBigInt k)"
    if "Row_get r index = JBigInt k" for k
    using that by (simp add: Row_bigint_def Row_bigintNullable_def)
  have fractional: "Row_bigint r index = Inl (Error ''Not an integer'')
       \<and> Row_bigintNullable r index = Inl (Error ''Not an integer or null'')"
    if "Row_get r index = JNumber n" and "\<forall>k. mathematical_value n \<noteq> Some (rat_of_int k)" for n
  proof -
    from that(2) have "\<not> Number_isInteger (JNumber n)"
      unfolding Number_isInteger_iff by blast
    with that(1) show ?thesis
      by (simp add: Row_bigint_def Row_bigintNullable_def)
  qed
  have other: "Row_bigint r index = Inl (Error ''Not an integer'')"
    if "typeof (Row_get r index) \<noteq> ''number''" and "typeof (Row_get r index) \<noteq> ''bigint''"
    using that by (cases "Row_get r index") (simp_all add: Row_bigint_def)
  have otherN: "Row_bigintNullable r index = Inl (Error ''Not an integer or null'')"
    if "typeof (Row_get r index) \<noteq> ''number''" and "typeof (Row_get r index) \<noteq> ''bigint''"
      and "Row_get r index \<noteq> JNull"
    using that by (cases "Row_get r index") (simp_all add: Row_bigintNullable_def)
  have null: "Row_bigintNullable r index = Inr JNull" if "Row_get r index = JNull"
    using that by (simp add: Row_bigintNullable_def)
  from integral wide fractional other otherN null show ?thesis
    by blast
qed

theorem bigint_widening_witness:
  "Row_get example_row (Finite 0) = JNumber (Finite 42)
   \<and> mathematical_value (Finite 42) = Some (rat_of_int 42)
   \<and> Row_bigint example_row (Finite 0) = Inr (JBigInt 42)
   \<and> Row_bigintNullable example_row (Finite 0) = Inr (JBigInt 42)
   \<and> Row_get example_row (Finite 1) = JNumber (Finite (21 / 5))
   \<and> Row_bigint example_row (Finite 1) = Inl (Error ''Not an integer'')
   \<and> Row_bigintNullable example_row (Finite 1) = Inl (Error ''Not an integer or null'')
   \<and> Row_get example_row (Finite 2) = JBigInt 7
   \<and> Row_bigint example_row (Finite 2) = Inr (JBigInt 7)
   \<and> Row_bigintNullable example_row (Finite 2) = Inr (JBigInt 7)
   \<and> Row_get example_row (Finite 3) = JNull
   \<and> Row_bigint example_row (Finite 3) = Inl (Error ''Not an integer'')
   \<and> Row_bigintNullable example_row (Finite 3) = Inr JNull
   \<and> Row_get example_row (Finite 4) = JString ''x''
   \<and> Row_bigint example_row (Finite 4) = Inl (Error ''Not an integer'')
   \<and> Row_bigintNullable example_row (Finite 4) = Inl (Error ''Not an integer or null'')"
proof -
  have mv: "mathematical_value (Finite 42) = Some (rat_of_int 42)"
    by simp
  have frac: "\<forall>k. mathematical_value (Finite (21 / 5)) \<noteq> Some (rat_of_int k)"
    by (simp only: not_integral_21_5 simp_thms)
  note g = example_row_get
  have a: "Row_bigint example_row (Finite 0) = Inr (JBigInt 42)
      \<and> Row_bigintNullable example_row (Finite 0) = Inr (JBigInt 42)"
    using bigint_widening [of example_row "Finite 0"] g(1) mv by blast
  have b: "Row_bigint example_row (Finite 1) = Inl (Error ''Not an integer'')
      \<and> Row_bigintNullable example_row (Finite 1) = Inl (Error ''Not an integer or null'')"
    using bigint_widening [of example_row "Finite 1"] g(2) frac by blast
  have c: "Row_bigint example_row (Finite 2) = Inr (JBigInt 7)
      \<and> Row_bigintNullable example_row (Finite 2) = Inr (JBigInt 7)"
    using bigint_widening [of example_row "Finite 2"] g(3) by blast
  have d: "Row_bigint example_row (Finite 3) = Inl (Error ''Not an integer'')
      \<and> Row_bigintNullable example_row (Finite 3) = Inr JNull"
    using bigint_widening [of example_row "Finite 3"] g(4) by simp
  have e: "Row_bigint example_row (Finite 4) = Inl (Error ''Not an integer'')
      \<and> Row_bigintNullable example_row (Finite 4) = Inl (Error ''Not an integer or null'')"
    using bigint_widening [of example_row "Finite 4"] g(5) by simp
  from mv g a b c d e show ?thesis by simp
qed

section \<open>Null columns\<close>

text \<open>
  C3: where the value at the index is null, each of the five nullable accessors returns
  null and each of the five non-nullable accessors fails with its type-mismatch Error;
  and whatever the row holds, a non-nullable accessor never returns null or \<^verbatim>\<open>undefined\<close>.
\<close>

theorem null_column:
  fixes r :: Row and index :: number
  shows "(Row_get r index = JNull \<longrightarrow>
            Row_stringNullable r index = Inr JNull
          \<and> Row_numberNullable r index = Inr JNull
          \<and> Row_bigintNullable r index = Inr JNull
          \<and> Row_booleanNullable r index = Inr JNull
          \<and> Row_bytesNullable r index = Inr JNull
          \<and> Row_string r index = Inl (Error ''Not a string'')
          \<and> Row_number r index = Inl (Error ''Not a number'')
          \<and> Row_bigint r index = Inl (Error ''Not an integer'')
          \<and> Row_boolean r index = Inl (Error ''Not a boolean'')
          \<and> Row_bytes r index = Inl (Error ''Not an Uint8Array''))
       \<and> Row_string r index \<noteq> Inr JNull \<and> Row_string r index \<noteq> Inr JUndefined
       \<and> Row_number r index \<noteq> Inr JNull \<and> Row_number r index \<noteq> Inr JUndefined
       \<and> Row_bigint r index \<noteq> Inr JNull \<and> Row_bigint r index \<noteq> Inr JUndefined
       \<and> Row_boolean r index \<noteq> Inr JNull \<and> Row_boolean r index \<noteq> Inr JUndefined
       \<and> Row_bytes r index \<noteq> Inr JNull \<and> Row_bytes r index \<noteq> Inr JUndefined"
proof -
  have s: "Row_string r index \<noteq> Inr JNull \<and> Row_string r index \<noteq> Inr JUndefined"
    by (cases "Row_get r index") (simp_all add: Row_string_def)
  have n: "Row_number r index \<noteq> Inr JNull \<and> Row_number r index \<noteq> Inr JUndefined"
    by (cases "Row_get r index") (simp_all add: Row_number_def)
  have BigInt_kind: "BigInt m \<noteq> Inr JNull \<and> BigInt m \<noteq> Inr JUndefined" for m
    by (cases m) simp_all
  have i: "Row_bigint r index \<noteq> Inr JNull \<and> Row_bigint r index \<noteq> Inr JUndefined"
    by (cases "Row_get r index") (simp_all add: Row_bigint_def BigInt_kind)
  have b: "Row_boolean r index \<noteq> Inr JNull \<and> Row_boolean r index \<noteq> Inr JUndefined"
    by (cases "Row_get r index") (simp_all add: Row_boolean_def)
  have y: "Row_bytes r index \<noteq> Inr JNull \<and> Row_bytes r index \<noteq> Inr JUndefined"
    by (cases "Row_get r index") (simp_all add: Row_bytes_def)
  have null: "Row_stringNullable r index = Inr JNull
          \<and> Row_numberNullable r index = Inr JNull
          \<and> Row_bigintNullable r index = Inr JNull
          \<and> Row_booleanNullable r index = Inr JNull
          \<and> Row_bytesNullable r index = Inr JNull
          \<and> Row_string r index = Inl (Error ''Not a string'')
          \<and> Row_number r index = Inl (Error ''Not a number'')
          \<and> Row_bigint r index = Inl (Error ''Not an integer'')
          \<and> Row_boolean r index = Inl (Error ''Not a boolean'')
          \<and> Row_bytes r index = Inl (Error ''Not an Uint8Array'')"
    if "Row_get r index = JNull"
    using that by (simp add: accessor_defs)
  from s n i b y null show ?thesis by blast
qed

theorem null_column_witness:
  "Row_get example_row (Finite 3) = JNull
   \<and> Row_stringNullable example_row (Finite 3) = Inr JNull
   \<and> Row_numberNullable example_row (Finite 3) = Inr JNull
   \<and> Row_bigintNullable example_row (Finite 3) = Inr JNull
   \<and> Row_booleanNullable example_row (Finite 3) = Inr JNull
   \<and> Row_bytesNullable example_row (Finite 3) = Inr JNull
   \<and> Row_string example_row (Finite 3) = Inl (Error ''Not a string'')
   \<and> Row_number example_row (Finite 3) = Inl (Error ''Not a number'')
   \<and> Row_bigint example_row (Finite 3) = Inl (Error ''Not an integer'')
   \<and> Row_boolean example_row (Finite 3) = Inl (Error ''Not a boolean'')
   \<and> Row_bytes example_row (Finite 3) = Inl (Error ''Not an Uint8Array'')"
  using null_column [of example_row "Finite 3"] example_row_get(4) by simp

section \<open>No conversion but the widening\<close>

text \<open>
  C4: \<^verbatim>\<open>string\<close>, \<^verbatim>\<open>number\<close>, \<^verbatim>\<open>boolean\<close> and \<^verbatim>\<open>bytes\<close> succeed exactly when the value at the
  index has the requested kind, and then return that very value; their nullable variants
  add only null, passed through; the wide-integer accessors return the stored wide
  integer, or the wide integer with the value of a stored integral Number, and nothing
  else. In particular a text value is returned by \<^verbatim>\<open>string\<close> and rejected by \<^verbatim>\<open>number\<close>,
  \<^verbatim>\<open>boolean\<close> and \<^verbatim>\<open>bytes\<close>, and a Number is rejected by \<^verbatim>\<open>boolean\<close>.
\<close>

theorem exact_kind:
  fixes r :: Row and index :: number and v :: js_value
  shows "(Row_string r index = Inr v \<longleftrightarrow> Row_get r index = v \<and> (\<exists>s. v = JString s))
       \<and> (Row_number r index = Inr v \<longleftrightarrow> Row_get r index = v \<and> (\<exists>n. v = JNumber n))
       \<and> (Row_boolean r index = Inr v \<longleftrightarrow> Row_get r index = v \<and> (\<exists>b. v = JBoolean b))
       \<and> (Row_bytes r index = Inr v \<longleftrightarrow> Row_get r index = v \<and> (\<exists>a. v = JUint8Array a))
       \<and> (Row_stringNullable r index = Inr v \<longleftrightarrow>
            Row_get r index = v \<and> (v = JNull \<or> (\<exists>s. v = JString s)))
       \<and> (Row_numberNullable r index = Inr v \<longleftrightarrow>
            Row_get r index = v \<and> (v = JNull \<or> (\<exists>n. v = JNumber n)))
       \<and> (Row_booleanNullable r index = Inr v \<longleftrightarrow>
            Row_get r index = v \<and> (v = JNull \<or> (\<exists>b. v = JBoolean b)))
       \<and> (Row_bytesNullable r index = Inr v \<longleftrightarrow>
            Row_get r index = v \<and> (v = JNull \<or> (\<exists>a. v = JUint8Array a)))
       \<and> (Row_bigint r index = Inr v \<longleftrightarrow>
            (\<exists>k. v = JBigInt k \<and>
              (Row_get r index = v \<or>
               (\<exists>n. Row_get r index = JNumber n \<and> mathematical_value n = Some (rat_of_int k)))))
       \<and> (Row_bigintNullable r index = Inr v \<longleftrightarrow>
            Row_get r index = v \<and> v = JNull \<or>
            (\<exists>k. v = JBigInt k \<and>
              (Row_get r index = v \<or>
               (\<exists>n. Row_get r index = JNumber n \<and> mathematical_value n = Some (rat_of_int k)))))
       \<and> (\<forall>s. Row_get r index = JString s \<longrightarrow>
            Row_string r index = Inr (JString s)
            \<and> Row_number r index = Inl (Error ''Not a number'')
            \<and> Row_boolean r index = Inl (Error ''Not a boolean'')
            \<and> Row_bytes r index = Inl (Error ''Not an Uint8Array''))
       \<and> (\<forall>n. Row_get r index = JNumber n \<longrightarrow>
            Row_boolean r index = Inl (Error ''Not a boolean''))"
proof -
  have s: "Row_string r index = Inr v \<longleftrightarrow> Row_get r index = v \<and> (\<exists>s. v = JString s)"
    by (cases "Row_get r index") (auto simp add: Row_string_def)
  have n: "Row_number r index = Inr v \<longleftrightarrow> Row_get r index = v \<and> (\<exists>n. v = JNumber n)"
    by (cases "Row_get r index") (auto simp add: Row_number_def)
  have b: "Row_boolean r index = Inr v \<longleftrightarrow> Row_get r index = v \<and> (\<exists>b. v = JBoolean b)"
    by (cases "Row_get r index") (auto simp add: Row_boolean_def)
  have y: "Row_bytes r index = Inr v \<longleftrightarrow> Row_get r index = v \<and> (\<exists>a. v = JUint8Array a)"
    by (cases "Row_get r index") (auto simp add: Row_bytes_def)
  have sN: "Row_stringNullable r index = Inr v \<longleftrightarrow>
      Row_get r index = v \<and> (v = JNull \<or> (\<exists>s. v = JString s))"
    by (cases "Row_get r index") (auto simp add: Row_stringNullable_def)
  have nN: "Row_numberNullable r index = Inr v \<longleftrightarrow>
      Row_get r index = v \<and> (v = JNull \<or> (\<exists>n. v = JNumber n))"
    by (cases "Row_get r index") (auto simp add: Row_numberNullable_def)
  have bN: "Row_booleanNullable r index = Inr v \<longleftrightarrow>
      Row_get r index = v \<and> (v = JNull \<or> (\<exists>b. v = JBoolean b))"
    by (cases "Row_get r index") (auto simp add: Row_booleanNullable_def)
  have yN: "Row_bytesNullable r index = Inr v \<longleftrightarrow>
      Row_get r index = v \<and> (v = JNull \<or> (\<exists>a. v = JUint8Array a))"
    by (cases "Row_get r index") (auto simp add: Row_bytesNullable_def)
  have i: "Row_bigint r index = Inr v \<longleftrightarrow>
      (\<exists>k. v = JBigInt k \<and>
        (Row_get r index = v \<or>
         (\<exists>n. Row_get r index = JNumber n \<and> mathematical_value n = Some (rat_of_int k))))"
  proof (cases "Row_get r index")
    case (JNumber m)
    then show ?thesis
      by (cases "Number_isInteger (JNumber m)")
        (auto simp add: Row_bigint_def BigInt_result Number_isInteger_iff)
  qed (auto simp add: Row_bigint_def)
  have iN: "Row_bigintNullable r index = Inr v \<longleftrightarrow>
      Row_get r index = v \<and> v = JNull \<or>
      (\<exists>k. v = JBigInt k \<and>
        (Row_get r index = v \<or>
         (\<exists>n. Row_get r index = JNumber n \<and> mathematical_value n = Some (rat_of_int k))))"
  proof (cases "Row_get r index")
    case (JNumber m)
    then show ?thesis
      by (cases "Number_isInteger (JNumber m)")
        (auto simp add: Row_bigintNullable_def BigInt_result Number_isInteger_iff)
  qed (auto simp add: Row_bigintNullable_def)
  have textual: "Row_string r index = Inr (JString s)
      \<and> Row_number r index = Inl (Error ''Not a number'')
      \<and> Row_boolean r index = Inl (Error ''Not a boolean'')
      \<and> Row_bytes r index = Inl (Error ''Not an Uint8Array'')"
    if "Row_get r index = JString s" for s
    using that by (simp add: accessor_defs)
  have numeric: "Row_boolean r index = Inl (Error ''Not a boolean'')"
    if "Row_get r index = JNumber m" for m
    using that by (simp add: Row_boolean_def)
  have t: "\<forall>s. Row_get r index = JString s \<longrightarrow>
            Row_string r index = Inr (JString s)
            \<and> Row_number r index = Inl (Error ''Not a number'')
            \<and> Row_boolean r index = Inl (Error ''Not a boolean'')
            \<and> Row_bytes r index = Inl (Error ''Not an Uint8Array'')"
    using textual by blast
  have m: "\<forall>n. Row_get r index = JNumber n \<longrightarrow>
            Row_boolean r index = Inl (Error ''Not a boolean'')"
    using numeric by blast
  show ?thesis
    by (intro conjI s n b y sN nN bN yN i iN t m)
qed

theorem exact_kind_witness:
  "Row_get example_row (Finite 4) = JString ''x''
   \<and> Row_string example_row (Finite 4) = Inr (JString ''x'')
   \<and> Row_number example_row (Finite 4) = Inl (Error ''Not a number'')
   \<and> Row_boolean example_row (Finite 4) = Inl (Error ''Not a boolean'')
   \<and> Row_bytes example_row (Finite 4) = Inl (Error ''Not an Uint8Array'')
   \<and> Row_get example_row (Finite 0) = JNumber (Finite 42)
   \<and> Row_boolean example_row (Finite 0) = Inl (Error ''Not a boolean'')"
  using exact_kind [of example_row "Finite 4" "JString ''x''"]
    exact_kind [of example_row "Finite 0" "JNumber (Finite 42)"]
    example_row_get(5) example_row_get(1)
  by simp

section \<open>queryOne\<close>

text \<open>
  C5: whenever the adapter's query returns rows (or, for the asynchronous facade, its
  promise is fulfilled with rows), \<^verbatim>\<open>queryOne\<close> yields null for zero rows and otherwise a
  Row wrapping the first tuple, whatever follows it; the database is left as the adapter
  left it.
\<close>

theorem queryOne_first_row:
  fixes S :: "('db, 'e) SyncDatabase" and A :: "('db, 'e) AsyncDatabase"
  shows "(SyncAdapter.query (SyncDatabase_adapter S) statement params db = (Inr result, db') \<longrightarrow>
            SyncDatabase_queryOne S statement params db =
              (Inr (case result of [] \<Rightarrow> None | tuple # others \<Rightarrow> Some (Row tuple)), db'))
       \<and> (AsyncAdapter.query (AsyncDatabase_adapter A) statement params db = (Inr (Fulfilled result), db') \<longrightarrow>
            AsyncDatabase_queryOne A statement params db =
              (Fulfilled (case result of [] \<Rightarrow> None | tuple # others \<Rightarrow> Some (Row tuple)), db'))"
  by (cases result) (simp_all add: SyncDatabase_queryOne_def AsyncDatabase_queryOne_def)

theorem queryOne_first_row_witness:
  "SyncAdapter.query (SyncDatabase_adapter example_sync) ''none'' [] 0 = (Inr [], 1)
   \<and> SyncDatabase_queryOne example_sync ''none'' [] 0 = (Inr None, 1)
   \<and> SyncAdapter.query (SyncDatabase_adapter example_sync) ''all'' [] 0 = (Inr example_tuples, 1)
   \<and> SyncDatabase_queryOne example_sync ''all'' [] 0 = (Inr (Some (Row [JNumber (Finite 7), JString ''x''])), 1)
   \<and> AsyncAdapter.query (AsyncDatabase_adapter example_async) ''none'' [] 0 = (Inr (Fulfilled []), 1)
   \<and> AsyncDatabase_queryOne example_async ''none'' [] 0 = (Fulfilled None, 1)
   \<and> AsyncAdapter.query (AsyncDatabase_adapter example_async) ''all'' [] 0 = (Inr (Fulfilled example_tuples), 1)
   \<and> AsyncDatabase_queryOne example_async ''all'' [] 0 = (Fulfilled (Some (Row [JNumber (Finite 7), JString ''x''])), 1)"
proof -
  have s0: "SyncAdapter.query (SyncDatabase_adapter example_sync) ''none'' [] 0 = (Inr [], 1)"
    and s2: "SyncAdapter.query (SyncDatabase_adapter example_sync) ''all'' [] 0 = (Inr example_tuples, 1)"
    by (simp_all add: example_sync_def)
  have a0: "AsyncAdapter.query (AsyncDatabase_adapter example_async) ''none'' [] 0 = (Inr (Fulfilled []), 1)"
    and a2: "AsyncAdapter.query (AsyncDatabase_adapter example_async) ''all'' [] 0 = (Inr (Fulfilled example_tuples), 1)"
    by (simp_all add: example_async_def)
  from queryOne_first_row [of example_sync "''none''" "[]" 0 "[]" 1 example_async]
    queryOne_first_row [of example_sync "''all''" "[]" 0 example_tuples 1 example_async]
    s0 s2 a0 a2
  show ?thesis by (simp add: example_tuples_def)
qed

section \<open>queryOneOrThrow\<close>

text \<open>
  C6: whenever the adapter's query returns rows, \<^verbatim>\<open>queryOneOrThrow\<close> fails exactly when
  there are zero rows, with the Error \<^verbatim>\<open>Query did not return any rows\<close>, thrown by the
  synchronous facade and delivered as the rejection of the returned promise by the
  asynchronous one; otherwise it returns the Row that \<^verbatim>\<open>queryOne\<close> returns.
\<close>

theorem queryOneOrThrow_no_rows:
  fixes S :: "('db, 'e) SyncDatabase" and A :: "('db, 'e) AsyncDatabase"
  shows "(SyncAdapter.query (SyncDatabase_adapter S) statement params db = (Inr result, db') \<longrightarrow>
            (SyncDatabase_queryOneOrThrow S statement params db =
               (Inl (Error ''Query did not return any rows''), db') \<longleftrightarrow> result = [])
          \<and> ((\<exists>e. fst (SyncDatabase_queryOneOrThrow S statement params db) = Inl e) \<longleftrightarrow> result = [])
          \<and> (result \<noteq> [] \<longrightarrow>
               (\<exists>row. SyncDatabase_queryOne S statement params db = (Inr (Some row), db')
                    \<and> SyncDatabase_queryOneOrThrow S statement params db = (Inr row, db'))))
       \<and> (AsyncAdapter.query (AsyncDatabase_adapter A) statement params db = (Inr (Fulfilled result), db') \<longrightarrow>
            (AsyncDatabase_queryOneOrThrow A statement params db =
               (Rejected (Error ''Query did not return any rows''), db') \<longleftrightarrow> result = [])
          \<and> ((\<exists>e. fst (AsyncDatabase_queryOneOrThrow A statement params db) = Rejected e) \<longleftrightarrow> result = [])
          \<and> (result \<noteq> [] \<longrightarrow>
               (\<exists>row. AsyncDatabase_queryOne A statement params db = (Fulfilled (Some row), db')
                    \<and> AsyncDatabase_queryOneOrThrow A statement params db = (Fulfilled row, db'))))"
  by (cases result)
    (simp_all add: SyncDatabase_queryOne_def SyncDatabase_queryOneOrThrow_def
      AsyncDatabase_queryOne_def AsyncDatabase_queryOneOrThrow_def)

theorem queryOneOrThrow_no_rows_witness:
  "SyncAdapter.query (SyncDatabase_adapter example_sync) ''none'' [] 0 = (Inr [], 1)
   \<and> SyncDatabase_queryOneOrThrow example_sync ''none'' [] 0 = (Inl (Error ''Query did not return any rows''), 1)
   \<and> SyncAdapter.query (SyncDatabase_adapter example_sync) ''all'' [] 0 = (Inr example_tuples, 1)
   \<and> example_tuples \<noteq> []
   \<and> (\<exists>row. SyncDatabase_queryOne example_sync ''all'' [] 0 = (Inr (Some row), 1)
          \<and> SyncDatabase_queryOneOrThrow example_sync ''all'' [] 0 = (Inr row, 1))
   \<and> AsyncAdapter.query (AsyncDatabase_adapter example_async) ''none'' [] 0 = (Inr (Fulfilled []), 1)
   \<and> AsyncDatabase_queryOneOrThrow example_async ''none'' [] 0 = (Rejected (Error ''Query did not return any rows''), 1)
   \<and> AsyncAdapter.query (AsyncDatabase_adapter example_async) ''all'' [] 0 = (Inr (Fulfilled example_tuples), 1)
   \<and> (\<exists>row. AsyncDatabase_queryOne example_async ''all'' [] 0 = (Fulfilled (Some row), 1)
          \<and> AsyncDatabase_queryOneOrThrow example_async ''all'' [] 0 = (Fulfilled row, 1))"
proof -
  have s0: "SyncAdapter.query (SyncDatabase_adapter example_sync) ''none'' [] 0 = (Inr [], 1)"
    and s2: "SyncAdapter.query (SyncDatabase_adapter example_sync) ''all'' [] 0 = (Inr example_tuples, 1)"
    by (simp_all add: example_sync_def)
  have a0: "AsyncAdapter.query (AsyncDatabase_adapter example_async) ''none'' [] 0 = (Inr (Fulfilled []), 1)"
    and a2: "AsyncAdapter.query (AsyncDatabase_adapter example_async) ''all'' [] 0 = (Inr (Fulfilled example_tuples), 1)"
    by (simp_all add: example_async_def)
  have ne: "example_tuples \<noteq> []"
    by (simp add: example_tuples_def)
  from queryOneOrThrow_no_rows [of example_sync "''none''" "[]" 0 "[]" 1 example_async] s0 a0
  have none: "SyncDatabase_queryOneOrThrow example_sync ''none'' [] 0 = (Inl (Error ''Query did not return any rows''), 1)
      \<and> AsyncDatabase_queryOneOrThrow example_async ''none'' [] 0 = (Rejected (Error ''Query did not return any rows''), 1)"
    by blast
  from queryOneOrThrow_no_rows [of example_sync "''all''" "[]" 0 example_tuples 1 example_async] s2 a2 ne
  have some: "(\<exists>row. SyncDatabase_queryOne example_sync ''all'' [] 0 = (Inr (Some row), 1)
          \<and> SyncDatabase_queryOneOrThrow example_sync ''all'' [] 0 = (Inr row, 1))
      \<and> (\<exists>row. AsyncDatabase_queryOne example_async ''all'' [] 0 = (Fulfilled (Some row), 1)
          \<and> AsyncDatabase_queryOneOrThrow example_async ''all'' [] 0 = (Fulfilled row, 1))"
    by blast
  from s0 s2 a0 a2 ne none some show ?thesis by blast
qed

section \<open>Counting and iterating rows\<close>

text \<open>
  C7: \<^verbatim>\<open>count()\<close> is the number of tuples; a \<^verbatim>\<open>for...of\<close> loop over a Rows receives one Row
  per tuple, in the adapter's order; a second loop over the same Rows receives the same
  rows, since every request for an iterator starts at the first tuple and \<^verbatim>\<open>next()\<close>
  leaves the tuples it walks over as they are.
\<close>

theorem rows_iteration:
  "Rows_count (Rows tuples) = length tuples
   \<and> for_of (Rows_iterator (Rows tuples)) = map Row tuples
   \<and> (let first = for_of (Rows_iterator (Rows tuples));
           second = for_of (Rows_iterator (Rows tuples))
       in first = second \<and> length first = Rows_count (Rows tuples))
   \<and> iterated (snd (iterator_next it)) = iterated it
   \<and> Rows_result (Rows tuples) = tuples"
proof -
  have "for_of (Rows_iterator (Rows tuples)) = map Row tuples"
    by (simp add: Rows_iterator_def for_of_from)
  moreover have "iterated (snd (iterator_next it)) = iterated it"
    by (cases it) simp
  ultimately show ?thesis
    by (simp add: Rows_count_def)
qed

theorem rows_iteration_witness:
  "Rows_count (Rows [[JNumber (Finite 1), JString ''a''], [JNumber (Finite 2), JString ''b''], [JNumber (Finite 3), JString ''c'']]) = 3
   \<and> for_of (Rows_iterator (Rows [[JNumber (Finite 1), JString ''a''], [JNumber (Finite 2), JString ''b''], [JNumber (Finite 3), JString ''c'']]))
       = [Row [JNumber (Finite 1), JString ''a''], Row [JNumber (Finite 2), JString ''b''], Row [JNumber (Finite 3), JString ''c'']]"
  using rows_iteration [of "[[JNumber (Finite 1), JString ''a''], [JNumber (Finite 2), JString ''b''], [JNumber (Finite 3), JString ''c'']]"]
  by simp

section \<open>Round trip through a Row\<close>

text \<open>
  C8, as the specification states it: for every tuple and every position, \<^verbatim>\<open>get(i)\<close> is
  \<^verbatim>\<open>===\<close> to the tuple's element. A tuple may hold NaN (a \<^verbatim>\<open>float\<close> column can), and
  NaN is not \<^verbatim>\<open>===\<close> to itself: for the tuple \<^verbatim>\<open>[NaN]\<close>, \<^verbatim>\<open>get(0) === tuple[0]\<close> is false.
\<close>

theorem get_strict_equality_counterexample:
  "0 < length [JNumber NaN]
   \<and> Row_get (Row [JNumber NaN]) (Finite 0) = JNumber NaN
   \<and> \<not> strict_equals (Row_get (Row [JNumber NaN]) (Finite 0)) ([JNumber NaN] ! 0)"
  by (simp add: Row_get_def)

text \<open>
  C8, amended: for every tuple and every position \<open>k\<close> of it, the Row constructed from
  the tuple holds the tuple as it is, and \<^verbatim>\<open>get(k)\<close> returns the tuple's element itself
  (the same primitive value, the same object reference: no copy, no coercion); the
  result is \<^verbatim>\<open>===\<close> to the tuple's element whenever that element is not NaN.
\<close>

theorem get_round_trip:
  assumes "k < length tuple"
  shows "Row_get (Row tuple) (Finite (rat_of_nat k)) = tuple ! k
       \<and> Row_result (Row tuple) = tuple
       \<and> (tuple ! k \<noteq> JNumber NaN \<longrightarrow>
            strict_equals (Row_get (Row tuple) (Finite (rat_of_nat k))) (tuple ! k))"
  using assms by (simp add: Row_get_position strict_equals_refl)

theorem get_round_trip_witness:
  "(1::nat) < length [JObject 5, JNumber (Finite 0)]
   \<and> [JObject 5, JNumber (Finite 0)] ! 1 \<noteq> JNumber NaN
   \<and> Row_get (Row [JObject 5, JNumber (Finite 0)]) (Finite (rat_of_nat 1)) = JNumber (Finite 0)
   \<and> strict_equals (Row_get (Row [JObject 5, JNumber (Finite 0)]) (Finite (rat_of_nat 1))) (JNumber (Finite 0))"
proof -
  have less: "(1::nat) < length [JObject 5, JNumber (Finite 0)]"
    by simp
  from get_round_trip [OF less] less show ?thesis by simp
qed

section \<open>The two facades agree\<close>

text \<open>
  C9: let the asynchronous adapter deliver what the synchronous adapter yields for a
  statement and its parameters, both leaving the same database behind. Where the
  synchronous adapter returns a value and the asynchronous adapter's promise is
  fulfilled with that value, each of \<^verbatim>\<open>query\<close>, \<^verbatim>\<open>queryOne\<close>, \<^verbatim>\<open>queryOneOrThrow\<close> and
  \<^verbatim>\<open>execute\<close> of the asynchronous facade ends as the promise form of what the synchronous
  operation does: fulfilled with the value it returns, rejected with the Error it
  throws, and rejected exactly when the synchronous operation throws. Where the
  synchronous adapter throws and the asynchronous adapter fails with the same exception,
  by throwing before it returns a promise or by rejecting its promise, every synchronous
  operation throws that exception and every asynchronous operation is rejected with it.
\<close>

theorem async_matches_sync:
  fixes S :: "('db, 'e) SyncDatabase" and A :: "('db, 'e) AsyncDatabase"
  shows "(SyncAdapter.query (SyncDatabase_adapter S) statement params db = (Inr result, d)
          \<and> AsyncAdapter.query (AsyncDatabase_adapter A) statement params db = (Inr (Fulfilled result), d) \<longrightarrow>
            SyncDatabase_query S statement params db = (Inr (Rows result), d)
          \<and> AsyncDatabase_query A statement params db = (Fulfilled (Rows result), d)
          \<and> AsyncDatabase_queryOne A statement params db =
              (deferred (fst (SyncDatabase_queryOne S statement params db)),
               snd (SyncDatabase_queryOne S statement params db))
          \<and> AsyncDatabase_queryOneOrThrow A statement params db =
              (deferred (fst (SyncDatabase_queryOneOrThrow S statement params db)),
               snd (SyncDatabase_queryOneOrThrow S statement params db))
          \<and> ((\<exists>x. AsyncDatabase_queryOneOrThrow A statement params db = (Rejected x, d)) \<longleftrightarrow>
               (\<exists>x. SyncDatabase_queryOneOrThrow S statement params db = (Inl x, d))))
       \<and> (SyncAdapter.query (SyncDatabase_adapter S) statement params db = (Inl e, d)
          \<and> (AsyncAdapter.query (AsyncDatabase_adapter A) statement params db = (Inl e, d)
              \<or> AsyncAdapter.query (AsyncDatabase_adapter A) statement params db = (Inr (Rejected e), d)) \<longrightarrow>
            SyncDatabase_query S statement params db = (Inl e, d)
          \<and> AsyncDatabase_query A statement params db = (Rejected e, d)
          \<and> SyncDatabase_queryOne S statement params db = (Inl e, d)
          \<and> AsyncDatabase_queryOne A statement params db = (Rejected e, d)
          \<and> SyncDatabase_queryOneOrThrow S statement params db = (Inl e, d)
          \<and> AsyncDatabase_queryOneOrThrow A statement params db = (Rejected e, d))
       \<and> (SyncAdapter.execute (SyncDatabase_adapter S) statement params db = (Inr v, d)
          \<and> AsyncAdapter.execute (AsyncDatabase_adapter A) statement params db = (Inr (Fulfilled v), d) \<longrightarrow>
            SyncDatabase_execute S statement params db = (Inr v, d)
          \<and> AsyncDatabase_execute A statement params db = (Fulfilled v, d))
       \<and> (SyncAdapter.execute (SyncDatabase_adapter S) statement params db = (Inl e, d)
          \<and> (AsyncAdapter.execute (AsyncDatabase_adapter A) statement params db = (Inl e, d)
              \<or> AsyncAdapter.execute (AsyncDatabase_adapter A) statement params db = (Inr (Rejected e), d)) \<longrightarrow>
            SyncDatabase_execute S statement params db = (Inl e, d)
          \<and> AsyncDatabase_execute A statement params db = (Rejected e, d))"
proof -
  have returned: "SyncDatabase_query S statement params db = (Inr (Rows result), d)
          \<and> AsyncDatabase_query A statement params db = (Fulfilled (Rows result), d)
          \<and> AsyncDatabase_queryOne A statement params db =
              (deferred (fst (SyncDatabase_queryOne S statement params db)),
               snd (SyncDatabase_queryOne S statement params db))
          \<and> AsyncDatabase_queryOneOrThrow A statement params db =
              (deferred (fst (SyncDatabase_queryOneOrThrow S statement params db)),
               snd (SyncDatabase_queryOneOrThrow S statement params db))
          \<and> ((\<exists>x. AsyncDatabase_queryOneOrThrow A statement params db = (Rejected x, d)) \<longleftrightarrow>
               (\<exists>x. SyncDatabase_queryOneOrThrow S statement params db = (Inl x, d)))"
    if "SyncAdapter.query (SyncDatabase_adapter S) statement params db = (Inr result, d)"
      and "AsyncAdapter.query (AsyncDatabase_adapter A) statement params db = (Inr (Fulfilled result), d)"
    using that
    by (cases result)
      (simp_all add: AsyncDatabase_query_def AsyncDatabase_queryOne_def
        AsyncDatabase_queryOneOrThrow_def SyncDatabase_query_def SyncDatabase_queryOne_def
        SyncDatabase_queryOneOrThrow_def)
  have sync_thrown: "SyncDatabase_query S statement params db = (Inl e, d)
          \<and> SyncDatabase_queryOne S statement params db = (Inl e, d)
          \<and> SyncDatabase_queryOneOrThrow S statement params db = (Inl e, d)"
    if "SyncAdapter.query (SyncDatabase_adapter S) statement params db = (Inl e, d)"
    using that
    by (simp add: SyncDatabase_query_def SyncDatabase_queryOne_def SyncDatabase_queryOneOrThrow_def)
  have async_thrown: "AsyncDatabase_query A statement params db = (Rejected e, d)
          \<and> AsyncDatabase_queryOne A statement params db = (Rejected e, d)
          \<and> AsyncDatabase_queryOneOrThrow A statement params db = (Rejected e, d)"
    if "AsyncAdapter.query (AsyncDatabase_adapter A) statement params db = (Inl e, d)"
    using that
    by (simp add: AsyncDatabase_query_def AsyncDatabase_queryOne_def AsyncDatabase_queryOneOrThrow_def)
  have async_rejected: "AsyncDatabase_query A statement params db = (Rejected e, d)
          \<and> AsyncDatabase_queryOne A statement params db = (Rejected e, d)
          \<and> AsyncDatabase_queryOneOrThrow A statement params db = (Rejected e, d)"
    if "AsyncAdapter.query (AsyncDatabase_adapter A) statement params db = (Inr (Rejected e), d)"
    using that
    by (simp add: AsyncDatabase_query_def AsyncDatabase_queryOne_def AsyncDatabase_queryOneOrThrow_def)
  have executed: "SyncDatabase_execute S statement params db = (Inr v, d)
          \<and> AsyncDatabase_execute A statement params db = (Fulfilled v, d)"
    if "SyncAdapter.execute (SyncDatabase_adapter S) statement params db = (Inr v, d)"
      and "AsyncAdapter.execute (AsyncDatabase_adapter A) statement params db = (Inr (Fulfilled v), d)"
    using that by (simp add: AsyncDatabase_execute_def SyncDatabase_execute_def)
  have execute_thrown: "SyncDatabase_execute S statement params db = (Inl e, d)
          \<and> AsyncDatabase_execute A statement params db = (Rejected e, d)"
    if "SyncAdapter.execute (SyncDatabase_adapter S) statement params db = (Inl e, d)"
      and "AsyncAdapter.execute (AsyncDatabase_adapter A) statement params db = (Inl e, d)
        \<or> AsyncAdapter.execute (AsyncDatabase_adapter A) statement params db = (Inr (Rejected e), d)"
    using that by (auto simp add: AsyncDatabase_execute_def SyncDatabase_execute_def)
  have c1: "SyncAdapter.query (SyncDatabase_adapter S) statement params db = (Inr result, d)
          \<and> AsyncAdapter.query (AsyncDatabase_adapter A) statement params db = (Inr (Fulfilled result), d) \<longrightarrow>
            SyncDatabase_query S statement params db = (Inr (Rows result), d)
          \<and> AsyncDatabase_query A statement params db = (Fulfilled (Rows result), d)
          \<and> AsyncDatabase_queryOne A statement params db =
              (deferred (fst (SyncDatabase_queryOne S statement params db)),
               snd (SyncDatabase_queryOne S statement params db))
          \<and> AsyncDatabase_queryOneOrThrow A statement params db =
              (deferred (fst (SyncDatabase_queryOneOrThrow S statement params db)),
               snd (SyncDatabase_queryOneOrThrow S statement params db))
          \<and> ((\<exists>x. AsyncDatabase_queryOneOrThrow A statement params db = (Rejected x, d)) \<longleftrightarrow>
               (\<exists>x. SyncDatabase_queryOneOrThrow S statement params db = (Inl x, d)))"
    using returned by blast
  have c2: "SyncAdapter.query (SyncDatabase_adapter S) statement params db = (Inl e, d)
          \<and> (AsyncAdapter.query (AsyncDatabase_adapter A) statement params db = (Inl e, d)
              \<or> AsyncAdapter.query (AsyncDatabase_adapter A) statement params db = (Inr (Rejected e), d)) \<longrightarrow>
            SyncDatabase_query S statement params db = (Inl e, d)
          \<and> AsyncDatabase_query A statement params db = (Rejected e, d)
          \<and> SyncDatabase_queryOne S statement params db = (Inl e, d)
          \<and> AsyncDatabase_queryOne A statement params db = (Rejected e, d)
          \<and> SyncDatabase_queryOneOrThrow S statement params db = (Inl e, d)
          \<and> AsyncDatabase_queryOneOrThrow A statement params db = (Rejected e, d)"
    using sync_thrown async_thrown async_rejected by blast
  have c3: "SyncAdapter.execute (SyncDatabase_adapter S) statement params db = (Inr v, d)
          \<and> AsyncAdapter.execute (AsyncDatabase_adapter A) statement params db = (Inr (Fulfilled v), d) \<longrightarrow>
            SyncDatabase_execute S statement params db = (Inr v, d)
          \<and> AsyncDatabase_execute A statement params db = (Fulfilled v, d)"
    using executed by blast
  have c4: "SyncAdapter.execute (SyncDatabase_adapter S) statement params db = (Inl e, d)
          \<and> (AsyncAdapter.execute (AsyncDatabase_adapter A) statement params db = (Inl e, d)
              \<or> AsyncAdapter.execute (AsyncDatabase_adapter A) statement params db = (Inr (Rejected e), d)) \<longrightarrow>
            SyncDatabase_execute S statement params db = (Inl e, d)
          \<and> AsyncDatabase_execute A statement params db = (Rejected e, d)"
    using execute_thrown by blast
  show ?thesis
    by (intro conjI c1 c2 c3 c4)
qed

theorem async_matches_sync_witness:
  "SyncDatabase_query example_sync ''all'' [] 0 = (Inr (Rows example_tuples), 1)
   \<and> AsyncDatabase_query example_async ''all'' [] 0 = (Fulfilled (Rows example_tuples), 1)
   \<and> SyncDatabase_queryOneOrThrow example_sync ''none'' [] 0
       = (Inl (Error ''Query did not return any rows''), 1)
   \<and> AsyncDatabase_queryOneOrThrow example_async ''none'' [] 0
       = (Rejected (Error ''Query did not return any rows''), 1)
   \<and> SyncAdapter.query (SyncDatabase_adapter example_sync) ''bad'' [] 0
       = (Inl (Thrown (JString ''syntax error'')), 0)
   \<and> AsyncAdapter.query (AsyncDatabase_adapter example_async) ''bad'' [] 0
       = (Inr (Rejected (Thrown (JString ''syntax error''))), 0)
   \<and> SyncDatabase_queryOne example_sync ''bad'' [] 0 = (Inl (Thrown (JString ''syntax error'')), 0)
   \<and> AsyncDatabase_queryOne example_async ''bad'' [] 0 = (Rejected (Thrown (JString ''syntax error'')), 0)
   \<and> SyncAdapter.query (SyncDatabase_adapter failing_sync) ''all'' [] 0
       = (Inl (Thrown (JString ''connection lost'')), 0)
   \<and> AsyncAdapter.query (AsyncDatabase_adapter failing_async) ''all'' [] 0
       = (Inl (Thrown (JString ''connection lost'')), 0)
   \<and> SyncDatabase_query failing_sync ''all'' [] 0 = (Inl (Thrown (JString ''connection lost'')), 0)
   \<and> AsyncDatabase_query failing_async ''all'' [] 0 = (Rejected (Thrown (JString ''connection lost'')), 0)
   \<and> SyncDatabase_queryOne failing_sync ''all'' [] 0 = (Inl (Thrown (JString ''connection lost'')), 0)
   \<and> AsyncDatabase_queryOne failing_async ''all'' [] 0 = (Rejected (Thrown (JString ''connection lost'')), 0)
   \<and> SyncDatabase_queryOneOrThrow failing_sync ''all'' [] 0 = (Inl (Thrown (JString ''connection lost'')), 0)
   \<and> AsyncDatabase_queryOneOrThrow failing_async ''all'' [] 0 = (Rejected (Thrown (JString ''connection lost'')), 0)
   \<and> SyncAdapter.execute (SyncDatabase_adapter failing_sync) ''insert'' [JNull] 0
       = (Inl (Thrown (JString ''connection lost'')), 0)
   \<and> AsyncAdapter.execute (AsyncDatabase_adapter failing_async) ''insert'' [JNull] 0
       = (Inl (Thrown (JString ''connection lost'')), 0)
   \<and> SyncDatabase_execute failing_sync ''insert'' [JNull] 0 = (Inl (Thrown (JString ''connection lost'')), 0)
   \<and> AsyncDatabase_execute failing_async ''insert'' [JNull] 0 = (Rejected (Thrown (JString ''connection lost'')), 0)
   \<and> SyncDatabase_execute example_sync ''insert'' [JNull] 0 = (Inr 1, 1)
   \<and> AsyncDatabase_execute example_async ''insert'' [JNull] 0 = (Fulfilled 1, 1)"
proof -
  have sq: "SyncAdapter.query (SyncDatabase_adapter example_sync) ''all'' [] 0 = (Inr example_tuples, 1)"
    "SyncAdapter.query (SyncDatabase_adapter example_sync) ''none'' [] 0 = (Inr [], 1)"
    "SyncAdapter.query (SyncDatabase_adapter example_sync) ''bad'' [] 0
       = (Inl (Thrown (JString ''syntax error'')), 0)"
    by (simp_all add: example_sync_def)
  have aq: "AsyncAdapter.query (AsyncDatabase_adapter example_async) ''all'' [] 0 = (Inr (Fulfilled example_tuples), 1)"
    "AsyncAdapter.query (AsyncDatabase_adapter example_async) ''none'' [] 0 = (Inr (Fulfilled []), 1)"
    "AsyncAdapter.query (AsyncDatabase_adapter example_async) ''bad'' [] 0
       = (Inr (Rejected (Thrown (JString ''syntax error''))), 0)"
    by (simp_all add: example_async_def)
  have sx: "SyncAdapter.execute (SyncDatabase_adapter example_sync) ''insert'' [JNull] 0 = (Inr 1, 1)"
    by (simp add: example_sync_def)
  have ax: "AsyncAdapter.execute (AsyncDatabase_adapter example_async) ''insert'' [JNull] 0 = (Inr (Fulfilled 1), 1)"
    by (simp add: example_async_def)
  have fs: "SyncAdapter.query (SyncDatabase_adapter failing_sync) ''all'' [] 0
       = (Inl (Thrown (JString ''connection lost'')), 0)"
    "SyncAdapter.execute (SyncDatabase_adapter failing_sync) ''insert'' [JNull] 0
       = (Inl (Thrown (JString ''connection lost'')), 0)"
    by (simp_all add: failing_sync_def)
  have fa: "AsyncAdapter.query (AsyncDatabase_adapter failing_async) ''all'' [] 0
       = (Inl (Thrown (JString ''connection lost'')), 0)"
    "AsyncAdapter.execute (AsyncDatabase_adapter failing_async) ''insert'' [JNull] 0
       = (Inl (Thrown (JString ''connection lost'')), 0)"
    by (simp_all add: failing_async_def)
  have none: "SyncDatabase_queryOneOrThrow example_sync ''none'' [] 0
       = (Inl (Error ''Query did not return any rows''), 1)"
    using sq(2) by (simp add: SyncDatabase_queryOneOrThrow_def SyncDatabase_queryOne_def)
  from async_matches_sync [where S = example_sync and A = example_async and statement = "''all''"
      and params = "[]" and db = 0 and result = example_tuples and d = 1] sq(1) aq(1)
  have w1: "SyncDatabase_query example_sync ''all'' [] 0 = (Inr (Rows example_tuples), 1)
      \<and> AsyncDatabase_query example_async ''all'' [] 0 = (Fulfilled (Rows example_tuples), 1)"
    by blast
  from async_matches_sync [where S = example_sync and A = example_async and statement = "''none''"
      and params = "[]" and db = 0 and result = "[]" and d = 1] sq(2) aq(2) none
  have w2: "AsyncDatabase_queryOneOrThrow example_async ''none'' [] 0
       = (Rejected (Error ''Query did not return any rows''), 1)"
    by simp
  from async_matches_sync [where S = example_sync and A = example_async and statement = "''bad''"
      and params = "[]" and db = 0 and e = "Thrown (JString ''syntax error'')" and d = 0] sq(3) aq(3)
  have w3: "SyncDatabase_queryOne example_sync ''bad'' [] 0 = (Inl (Thrown (JString ''syntax error'')), 0)
      \<and> AsyncDatabase_queryOne example_async ''bad'' [] 0 = (Rejected (Thrown (JString ''syntax error'')), 0)"
    by blast
  from async_matches_sync [where S = failing_sync and A = failing_async and statement = "''all''"
      and params = "[]" and db = 0 and e = "Thrown (JString ''connection lost'')" and d = 0] fs(1) fa(1)
  have w4: "SyncDatabase_query failing_sync ''all'' [] 0 = (Inl (Thrown (JString ''connection lost'')), 0)
      \<and> AsyncDatabase_query failing_async ''all'' [] 0 = (Rejected (Thrown (JString ''connection lost'')), 0)
      \<and> SyncDatabase_queryOne failing_sync ''all'' [] 0 = (Inl (Thrown (JString ''connection lost'')), 0)
      \<and> AsyncDatabase_queryOne failing_async ''all'' [] 0 = (Rejected (Thrown (JString ''connection lost'')), 0)
      \<and> SyncDatabase_queryOneOrThrow failing_sync ''all'' [] 0 = (Inl (Thrown (JString ''connection lost'')), 0)
      \<and> AsyncDatabase_queryOneOrThrow failing_async ''all'' [] 0 = (Rejected (Thrown (JString ''connection lost'')), 0)"
    by blast
  from async_matches_sync [where S = failing_sync and A = failing_async and statement = "''insert''"
      and params = "[JNull]" and db = 0 and e = "Thrown (JString ''connection lost'')" and d = 0] fs(2) fa(2)
  have w5: "SyncDatabase_execute failing_sync ''insert'' [JNull] 0 = (Inl (Thrown (JString ''connection lost'')), 0)
      \<and> AsyncDatabase_execute failing_async ''insert'' [JNull] 0 = (Rejected (Thrown (JString ''connection lost'')), 0)"
    by blast
  from async_matches_sync [where S = example_sync and A = example_async and statement = "''insert''"
      and params = "[JNull]" and db = 0 and v = 1 and d = 1] sx ax
  have w6: "SyncDatabase_execute example_sync ''insert'' [JNull] 0 = (Inr 1, 1)
      \<and> AsyncDatabase_execute example_async ''insert'' [JNull] 0 = (Fulfilled 1, 1)"
    by blast
  from w1 none w2 sq(3) aq(3) w3 fs fa w4 w5 w6 show ?thesis
    by (intro conjI) (erule conjE | assumption)+
qed

section \<open>Nullable and non-nullable accessors agree\<close>

text \<open>
  C10: whenever a non-nullable accessor succeeds with a value, its nullable variant
  succeeds with the same value; and whenever a nullable accessor returns a value that is
  not null, the non-nullable accessor succeeds with the same value.
\<close>

theorem nullable_coherence:
  fixes r :: Row and index :: number and v :: js_value
  shows "(Row_string r index = Inr v \<longrightarrow> Row_stringNullable r index = Inr v)
       \<and> (Row_stringNullable r index = Inr v \<and> v \<noteq> JNull \<longrightarrow> Row_string r index = Inr v)
       \<and> (Row_number r index = Inr v \<longrightarrow> Row_numberNullable r index = Inr v)
       \<and> (Row_numberNullable r index = Inr v \<and> v \<noteq> JNull \<longrightarrow> Row_number r index = Inr v)
       \<and> (Row_bigint r index = Inr v \<longrightarrow> Row_bigintNullable r index = Inr v)
       \<and> (Row_bigintNullable r index = Inr v \<and> v \<noteq> JNull \<longrightarrow> Row_bigint r index = Inr v)
       \<and> (Row_boolean r index = Inr v \<longrightarrow> Row_booleanNullable r index = Inr v)
       \<and> (Row_booleanNullable r index = Inr v \<and> v \<noteq> JNull \<longrightarrow> Row_boolean r index = Inr v)
       \<and> (Row_bytes r index = Inr v \<longrightarrow> Row_bytesNullable r index = Inr v)
       \<and> (Row_bytesNullable r index = Inr v \<and> v \<noteq> JNull \<longrightarrow> Row_bytes r index = Inr v)"
proof -
  have s: "Row_string r index = Inr v \<longleftrightarrow> Row_stringNullable r index = Inr v \<and> v \<noteq> JNull"
    by (cases "Row_get r index") (auto simp add: Row_string_def Row_stringNullable_def)
  have n: "Row_number r index = Inr v \<longleftrightarrow> Row_numberNullable r index = Inr v \<and> v \<noteq> JNull"
    by (cases "Row_get r index") (auto simp add: Row_number_def Row_numberNullable_def)
  have b: "Row_boolean r index = Inr v \<longleftrightarrow> Row_booleanNullable r index = Inr v \<and> v \<noteq> JNull"
    by (cases "Row_get r index") (auto simp add: Row_boolean_def Row_booleanNullable_def)
  have y: "Row_bytes r index = Inr v \<longleftrightarrow> Row_bytesNullable r index = Inr v \<and> v \<noteq> JNull"
    by (cases "Row_get r index") (auto simp add: Row_bytes_def Row_bytesNullable_def)
  have i: "Row_bigint r index = Inr v \<longleftrightarrow> Row_bigintNullable r index = Inr v \<and> v \<noteq> JNull"
  proof (cases "Row_get r index")
    case (JNumber m)
    then show ?thesis
      by (cases "Number_isInteger (JNumber m)")
        (auto simp add: Row_bigint_def Row_bigintNullable_def BigInt_result)
  qed (auto simp add: Row_bigint_def Row_bigintNullable_def)
  show ?thesis
    by (simp add: s n b y i)
qed

theorem nullable_coherence_witness:
  "Row_string example_row (Finite 4) = Inr (JString ''x'')
   \<and> Row_stringNullable example_row (Finite 4) = Inr (JString ''x'')
   \<and> Row_bigintNullable example_row (Finite 0) = Inr (JBigInt 42) \<and> JBigInt 42 \<noteq> JNull
   \<and> Row_bigint example_row (Finite 0) = Inr (JBigInt 42)"
proof -
  have s: "Row_string example_row (Finite 4) = Inr (JString ''x'')"
    by (simp add: Row_string_def example_row_get)
  have i: "Row_bigintNullable example_row (Finite 0) = Inr (JBigInt 42)"
    by (simp add: Row_bigintNullable_def example_row_get)
  from nullable_coherence [of example_row "Finite 4" "JString ''x''"] s
  have sN: "Row_stringNullable example_row (Finite 4) = Inr (JString ''x'')"
    by blast
  from nullable_coherence [of example_row "Finite 0" "JBigInt 42"] i
  have i': "Row_bigint example_row (Finite 0) = Inr (JBigInt 42)"
    by simp
  from s sN i i' show ?thesis by simp
qed

end
